theory Spec2Isabelle
  imports Complex_Main
begin

section \<open>Data model\<close>

text \<open>
  The shapes of \<^verbatim>\<open>./types/weather\<close> as \<^verbatim>\<open>App.tsx\<close> uses them:
  \<^verbatim>\<open>weather.location.{name, country, lat, lon}\<close> and \<^verbatim>\<open>weather.current.condition\<close>.
  The remaining fields of the current conditions are those the specification lists.
  JavaScript numbers are modelled as reals: the controller only stores, passes on and
  compares them.  The elements of the forecast and of the alerts are never inspected by
  the controller, so their types stay abstract.
\<close>

typedecl dailyForecast
typedecl alert

record location =
  name :: string
  country :: string
  lat :: real
  lon :: real

text \<open>
  \<^verbatim>\<open>LocationSuggestion\<close> has the fields \<^verbatim>\<open>{name, country, lat, lon}\<close> too, and TypeScript
  types are structural.
\<close>

type_synonym locationSuggestion = location

record current =
  temperature :: real
  condition :: string
  humidity :: real
  windSpeed :: real

record weatherData =
  location :: location
  current :: current
  forecast :: "dailyForecast list"
  alerts :: "alert list"

text \<open>The error taxonomy of the specification (section 7).\<close>

datatype error_kind = NetworkError | ParseError | NotFoundError | GeolocationError

section \<open>The controller of \<^verbatim>\<open>App.tsx\<close>\<close>

text \<open>
  What \<^verbatim>\<open>console.error\<close> receives: \<^verbatim>\<open>'Weather fetch error:', err\<close> in
  \<^verbatim>\<open>fetchWeatherData\<close> and \<^verbatim>\<open>'Geolocation error:', error\<close> in \<^verbatim>\<open>requestLocation\<close>.
\<close>

datatype log_entry = Weather_fetch_error error_kind | Geolocation_error string

text \<open>
  The four \<^verbatim>\<open>useState\<close> cells of \<^verbatim>\<open>App\<close>, followed by two logs of the effects the
  component has on the outside: the calls \<^verbatim>\<open>getWeatherByLocation(lat, lon)\<close> it has
  issued, oldest first, and the lines it has written to the console.
\<close>

record app =
  weather :: "weatherData option"
  loading :: bool
  error :: "string option"
  currentLocation :: string
  requests :: "(real \<times> real) list"
  console :: "log_entry list"

text \<open>
  \<^verbatim>\<open>useState(null)\<close>, \<^verbatim>\<open>useState(true)\<close>, \<^verbatim>\<open>useState(null)\<close>, \<^verbatim>\<open>useState('')\<close>.
\<close>

definition initial :: app where
  "initial =
     \<lparr>weather = None, loading = True, error = None, currentLocation = [],
      requests = [], console = []\<rparr>"

definition fetch_failed_message :: string where
  "fetch_failed_message = ''Failed to fetch weather data. Please try again.''"

text \<open>
  \<^verbatim>\<open>fetchWeatherData\<close> is an \<^verbatim>\<open>async\<close> function with one \<^verbatim>\<open>await\<close>.  Its body up
  to the \<^verbatim>\<open>await\<close> runs when it is called: \<^verbatim>\<open>setLoading(true)\<close>,
  \<^verbatim>\<open>setError(null)\<close>, and the call of \<^verbatim>\<open>getWeatherByLocation(lat, lon)\<close>.
\<close>

definition fetchWeatherData_start :: "real \<Rightarrow> real \<Rightarrow> app \<Rightarrow> app" where
  "fetchWeatherData_start la lo s =
     s\<lparr>loading := True, error := None, requests := requests s @ [(la, lo)]\<rparr>"

text \<open>
  The rest runs when the promise settles.  Fulfilled with \<^verbatim>\<open>weatherData\<close>:
  \<^verbatim>\<open>setWeather(weatherData)\<close> and \<^verbatim>\<open>setCurrentLocation\<close> with the name, a comma and a
  space, and the country.  Rejected with \<^verbatim>\<open>err\<close>: the \<^verbatim>\<open>catch\<close> block sets the fixed
  message and logs \<^verbatim>\<open>err\<close>.  The \<^verbatim>\<open>finally\<close> block does \<^verbatim>\<open>setLoading(false)\<close> in both
  cases, in the same synchronous run.
\<close>

definition fetchWeatherData_settle :: "error_kind + weatherData \<Rightarrow> app \<Rightarrow> app" where
  "fetchWeatherData_settle r s =
     (case r of
        Inr weatherData \<Rightarrow>
          s\<lparr>weather := Some weatherData,
            currentLocation :=
              name (location weatherData) @ '', '' @ country (location weatherData),
            loading := False\<rparr>
      | Inl err \<Rightarrow>
          s\<lparr>error := Some fetch_failed_message,
            console := console s @ [Weather_fetch_error err],
            loading := False\<rparr>)"

text \<open>
  One whole run of \<^verbatim>\<open>fetchWeatherData(lat, lon)\<close> in which nothing else happens between
  the call and the settling of the promise with outcome \<open>r\<close>.
\<close>

definition fetchWeatherData :: "error_kind + weatherData \<Rightarrow> real \<Rightarrow> real \<Rightarrow> app \<Rightarrow> app" where
  "fetchWeatherData r la lo s = fetchWeatherData_settle r (fetchWeatherData_start la lo s)"

definition handleLocationSelect :: "locationSuggestion \<Rightarrow> app \<Rightarrow> app" where
  "handleLocationSelect l s = fetchWeatherData_start (lat l) (lon l) s"

definition handleRefresh :: "app \<Rightarrow> app" where
  "handleRefresh s =
     (case weather s of
        Some w \<Rightarrow> fetchWeatherData_start (lat (location w)) (lon (location w)) s
      | None \<Rightarrow> s)"

text \<open>
  What the device answers to \<^verbatim>\<open>requestLocation\<close>: there is no
  \<^verbatim>\<open>navigator.geolocation\<close>, or \<^verbatim>\<open>getCurrentPosition\<close> calls the success callback with
  a position, or it calls the error callback.
\<close>

datatype geo_result = Geo_unavailable | Geo_position real real | Geo_failed string

definition default_lat :: real where
  "default_lat = 40.7128"

definition default_lon :: real where
  "default_lon = - 74.0060"

definition requestLocation :: "geo_result \<Rightarrow> app \<Rightarrow> app" where
  "requestLocation g s =
     (case g of
        Geo_position latitude longitude \<Rightarrow> fetchWeatherData_start latitude longitude s
      | Geo_failed e \<Rightarrow>
          fetchWeatherData_start default_lat default_lon
            (s\<lparr>console := console s @ [Geolocation_error e]\<rparr>)
      | Geo_unavailable \<Rightarrow> fetchWeatherData_start default_lat default_lon s)"

text \<open>
  The three \<^verbatim>\<open>return\<close>s of the component: the spinner while \<^verbatim>\<open>loading\<close>; the message
  with the "Try Again" button when \<^verbatim>\<open>error && !weather\<close> (an empty string is falsy in
  JavaScript); the dashboard otherwise, which shows \<^verbatim>\<open>currentLocation\<close> in the search
  box and the weather panels when \<^verbatim>\<open>weather\<close> is held.  The dashboard has no element
  that shows \<^verbatim>\<open>error\<close>.
\<close>

datatype screen =
  Loading_screen
| Error_screen string
| Dashboard string "weatherData option"

definition render :: "app \<Rightarrow> screen" where
  "render s =
     (if loading s then Loading_screen
      else
        (case error s of
           Some m \<Rightarrow>
             if m \<noteq> [] \<and> weather s = None then Error_screen m
             else Dashboard (currentLocation s) (weather s)
         | None \<Rightarrow> Dashboard (currentLocation s) (weather s)))"

text \<open>
  What can happen to the mounted component: the answer of the device to a
  \<^verbatim>\<open>requestLocation\<close> (on mount, from the "use current location" button or from "Try
  Again"), the selection of a search suggestion, a click on refresh, and the settling of
  a promise of \<^verbatim>\<open>getWeatherByLocation\<close>.  No fetch is cancelled and none is awaited by
  another one, so the events may come in any order.
\<close>

datatype event =
  Location_answer geo_result
| Location_select locationSuggestion
| Refresh
| Fetch_settled "error_kind + weatherData"

fun step :: "app \<Rightarrow> event \<Rightarrow> app" where
  "step s (Location_answer g) = requestLocation g s"
| "step s (Location_select l) = handleLocationSelect l s"
| "step s Refresh = handleRefresh s"
| "step s (Fetch_settled r) = fetchWeatherData_settle r s"

definition run :: "event list \<Rightarrow> app" where
  "run evs = foldl step initial evs"

text \<open>
  The events in which a promise of \<^verbatim>\<open>getWeatherByLocation\<close> is rejected: the only ones
  that take \<^verbatim>\<open>fetchWeatherData\<close> into its \<^verbatim>\<open>catch\<close> block.
\<close>

fun rejection :: "event \<Rightarrow> bool" where
  "rejection (Fetch_settled (Inl err)) = True"
| "rejection ev = False"

text \<open>
  All of the state but the console: the four state cells, which are all that the
  component renders from, and the requests issued.
\<close>

definition observable ::
  "app \<Rightarrow> weatherData option \<times> bool \<times> string option \<times> string \<times> (real \<times> real) list" where
  "observable s = (weather s, loading s, error s, currentLocation s, requests s)"

section \<open>The weather client\<close>

text \<open>
  The characters that \<^verbatim>\<open>String.prototype.trim\<close> removes, among the single bytes: space,
  tab, line feed, vertical tab, form feed, carriage return.
\<close>

definition is_whitespace :: "char \<Rightarrow> bool" where
  "is_whitespace c =
     (c = CHR '' '' \<or> c = CHR 0x09 \<or> c = CHR 0x0A \<or> c = CHR 0x0B \<or> c = CHR 0x0C \<or>
      c = CHR 0x0D)"

definition trim :: "string \<Rightarrow> string" where
  "trim text = rev (dropWhile is_whitespace (rev (dropWhile is_whitespace text)))"

text \<open>
  Modelled from the spec: \<^verbatim>\<open>fetchByQuery\<close> (of \<^verbatim>\<open>./utils/weatherApi\<close>, not in this
  development).  Section 4.1: empty or whitespace-only input returns an empty sequence
  without a network call; otherwise there is one lookup, whose outcome is the result.  The
  network layer is the parameter \<open>lookup\<close>; the second component of the argument and
  of the result is the log of the queries that have reached it, oldest first.
\<close>

definition fetchByQuery ::
  "(string \<Rightarrow> error_kind + locationSuggestion list) \<Rightarrow> string \<Rightarrow> string list \<Rightarrow>
   (error_kind + locationSuggestion list) \<times> string list" where
  "fetchByQuery lookup text calls =
     (if trim text = [] then (Inr [], calls) else (lookup text, calls @ [text]))"

section \<open>The insight engine\<close>

record insight =
  category :: string
  message :: string
  severity :: string

text \<open>
  The specification names the rules and leaves their numbers and their texts open: they
  are parameters.  \<open>wording\<close> gives a category's message and severity for a weather.
\<close>

record rule_parameters =
  heat_threshold :: real
  wind_threshold :: real
  humidity_threshold :: real
  discomfort_temperature :: real
  wording :: "string \<Rightarrow> weatherData \<Rightarrow> string \<times> string"

type_synonym rule = "(weatherData \<Rightarrow> bool) \<times> (weatherData \<Rightarrow> insight)"

definition make_insight :: "rule_parameters \<Rightarrow> string \<Rightarrow> weatherData \<Rightarrow> insight" where
  "make_insight p c w =
     \<lparr>category = c, message = fst (wording p c w), severity = snd (wording p c w)\<rparr>"

text \<open>
  Modelled from the spec: the rule table of \<^verbatim>\<open>generateAIInsights\<close> (of
  \<^verbatim>\<open>./utils/aiInsights\<close>, not in this development).  Section 4.2: temperature above a
  heat threshold gives the "high heat" insight; wind speed above a threshold the "windy"
  insight; humidity above a threshold combined with temperature the "discomfort"
  insight.  Section 9: an ordered list of pairs of a predicate and a message template.
\<close>

definition rule_table :: "rule_parameters \<Rightarrow> rule list" where
  "rule_table p =
     [(\<lambda>w. heat_threshold p < temperature (current w), make_insight p ''heat''),
      (\<lambda>w. wind_threshold p < windSpeed (current w), make_insight p ''windy''),
      (\<lambda>w. humidity_threshold p < humidity (current w) \<and>
            discomfort_temperature p < temperature (current w),
       make_insight p ''discomfort'')]"

text \<open>
  Modelled from the spec: the evaluation of \<^verbatim>\<open>generateAIInsights\<close>.  Section 4.2: the
  rules are evaluated independently, one after the other in the order of the table, and
  each one that matches adds its insight.
\<close>

fun apply_rules :: "rule list \<Rightarrow> weatherData \<Rightarrow> insight list" where
  "apply_rules [] w = []"
| "apply_rules (r # rs) w =
     (if fst r w then snd r w # apply_rules rs w else apply_rules rs w)"

definition generateAIInsights :: "rule_parameters \<Rightarrow> weatherData \<Rightarrow> insight list" where
  "generateAIInsights p w = apply_rules (rule_table p) w"

section \<open>Sample data\<close>

definition sample_weather :: weatherData where
  "sample_weather =
     \<lparr>location = \<lparr>name = ''Pune'', country = ''IN'', lat = 18.5204, lon = 73.8567\<rparr>,
      current = \<lparr>temperature = 35, condition = ''Clear'', humidity = 40, windSpeed = 5\<rparr>,
      forecast = [], alerts = []\<rparr>"

definition sample_storm :: weatherData where
  "sample_storm =
     \<lparr>location = \<lparr>name = ''Mumbai'', country = ''IN'', lat = 19.076, lon = 72.8777\<rparr>,
      current = \<lparr>temperature = 33, condition = ''Thunderstorm'', humidity = 92, windSpeed = 41\<rparr>,
      forecast = [], alerts = []\<rparr>"

definition sample_parameters :: rule_parameters where
  "sample_parameters =
     \<lparr>heat_threshold = 30, wind_threshold = 20, humidity_threshold = 80,
      discomfort_temperature = 25, wording = (\<lambda>c w. (c, ''info''))\<rparr>"

text \<open>A session in which the first fetch succeeded, and one in which it failed.\<close>

definition sample_ready :: app where
  "sample_ready = run [Location_answer Geo_unavailable, Fetch_settled (Inr sample_weather)]"

definition sample_failed :: app where
  "sample_failed = run [Location_answer Geo_unavailable, Fetch_settled (Inl NetworkError)]"

text \<open>
  A session in which two fetches overlap.  The first fetch has succeeded; the user asks
  for the current location and, before the device answers, clicks refresh; the device
  answers with a position; the refresh is rejected; the fetch for the position succeeds.
\<close>

definition sample_overlap :: "event list" where
  "sample_overlap =
     [Location_answer Geo_unavailable, Fetch_settled (Inr sample_weather), Refresh,
      Location_answer (Geo_position 19.076 72.8777), Fetch_settled (Inl NetworkError),
      Fetch_settled (Inr sample_storm)]"

lemmas app_simps =
  run_def initial_def requestLocation_def handleLocationSelect_def handleRefresh_def
  fetchWeatherData_def fetchWeatherData_start_def fetchWeatherData_settle_def
  fetch_failed_message_def default_lat_def default_lon_def render_def

lemmas step_simps =
  requestLocation_def handleLocationSelect_def handleRefresh_def
  fetchWeatherData_start_def fetchWeatherData_settle_def


section \<open>The controller: events after a request\<close>

lemma step_error_null:
  "\<not> rejection ev \<Longrightarrow> error s = None \<Longrightarrow> error (step s ev) = None"
  by (cases ev rule: rejection.cases)
    (simp_all add: step_simps split: geo_result.split option.split)

lemma foldl_step_error_null:
  "list_all (\<lambda>ev. \<not> rejection ev) evs \<Longrightarrow> error s = None \<Longrightarrow>
   error (foldl step s evs) = None"
proof (induction evs arbitrary: s)
  case Nil
  then show ?case by simp
next
  case (Cons ev evs)
  from Cons.prems have "error (step s ev) = None"
    by (simp add: step_error_null)
  moreover from Cons.prems have "list_all (\<lambda>ev. \<not> rejection ev) evs"
    by simp
  ultimately have "error (foldl step (step s ev) evs) = None"
    by (rule Cons.IH [rotated])
  then show ?case
    by simp
qed

lemma step_error_message:
  "error s = None \<or> error s = Some fetch_failed_message \<Longrightarrow>
   error (step s ev) = None \<or> error (step s ev) = Some fetch_failed_message"
  by (cases ev)
    (auto simp add: step_simps split: geo_result.split option.split sum.split)

lemma foldl_step_error_message:
  "error s = None \<or> error s = Some fetch_failed_message \<Longrightarrow>
   error (foldl step s evs) = None \<or> error (foldl step s evs) = Some fetch_failed_message"
proof (induction evs arbitrary: s)
  case Nil
  then show ?case by simp
next
  case (Cons ev evs)
  from Cons.prems have "error (step s ev) = None \<or> error (step s ev) = Some fetch_failed_message"
    by (rule step_error_message)
  then show ?case
    using Cons.IH [of "step s ev"] by simp
qed

lemma step_observable:
  "observable s = observable t \<Longrightarrow> observable (step s ev) = observable (step t ev)"
  by (cases ev)
    (auto simp add: observable_def step_simps split: geo_result.split option.split sum.split)

lemma foldl_step_observable:
  "observable s = observable t \<Longrightarrow>
   observable (foldl step s evs) = observable (foldl step t evs)"
proof (induction evs arbitrary: s t)
  case Nil
  then show ?case by simp
next
  case (Cons ev evs)
  from Cons.prems have "observable (step s ev) = observable (step t ev)"
    by (rule step_observable)
  then show ?case
    using Cons.IH [of "step s ev" "step t ev"] by simp
qed

lemma render_observable:
  "observable s = observable t \<Longrightarrow> render s = render t"
  by (auto simp add: observable_def render_def split: option.split)

lemma requestLocation_fallback:
  "g = Geo_unavailable \<or> g = Geo_failed e \<Longrightarrow>
   observable (requestLocation g s) = observable (requestLocation Geo_unavailable s) \<and>
   error (requestLocation g s) = None \<and> loading (requestLocation g s) \<and>
   requests (requestLocation g s) = requests s @ [(40.7128, - 74.0060)]"
  by (auto simp add: observable_def requestLocation_def fetchWeatherData_start_def
      default_lat_def default_lon_def)

lemma settle_success:
  "weather (fetchWeatherData_settle (Inr wd) s) = Some wd \<and>
   \<not> loading (fetchWeatherData_settle (Inr wd) s) \<and>
   error (fetchWeatherData_settle (Inr wd) s) = error s \<and>
   currentLocation (fetchWeatherData_settle (Inr wd) s)
     = name (location wd) @ '', '' @ country (location wd)"
  by (simp add: fetchWeatherData_settle_def)

lemma settle_success_render:
  "error s = None \<Longrightarrow>
   render (fetchWeatherData_settle (Inr wd) s)
     = Dashboard (name (location wd) @ '', '' @ country (location wd)) (Some wd)"
  by (simp add: fetchWeatherData_settle_def render_def)

section \<open>The controller: fetching\<close>

text \<open>
  C3, as amended.  Every fetch that succeeds stores the returned \<^verbatim>\<open>WeatherData\<close>,
  whatever was stored before, and clears the loading flag, from any state.  The error
  field is cleared when the fetch is issued, and the success leaves it as it is.  So the
  controller ends with the data stored, no error and the loading flag cleared, the
  dashboard rendered with the new data, whenever no fetch has been rejected since this one
  was issued, whatever else has happened in between; in particular when nothing has.
\<close>

theorem fetch_success_stores_data:
  "weather (fetchWeatherData_settle (Inr wd) s) = Some wd \<and>
   \<not> loading (fetchWeatherData_settle (Inr wd) s) \<and>
   currentLocation (fetchWeatherData_settle (Inr wd) s)
     = name (location wd) @ '', '' @ country (location wd) \<and>
   error (fetchWeatherData_settle (Inr wd) s) = error s \<and>
   error (fetchWeatherData_start la lo s) = None \<and>
   (list_all (\<lambda>ev. \<not> rejection ev) evs \<longrightarrow>
      error (fetchWeatherData_settle (Inr wd) (foldl step (fetchWeatherData_start la lo s) evs))
        = None \<and>
      render (fetchWeatherData_settle (Inr wd) (foldl step (fetchWeatherData_start la lo s) evs))
        = Dashboard (name (location wd) @ '', '' @ country (location wd)) (Some wd)) \<and>
   weather (fetchWeatherData (Inr wd) la lo s) = Some wd \<and>
   error (fetchWeatherData (Inr wd) la lo s) = None \<and>
   \<not> loading (fetchWeatherData (Inr wd) la lo s) \<and>
   render (fetchWeatherData (Inr wd) la lo s)
     = Dashboard (name (location wd) @ '', '' @ country (location wd)) (Some wd)"
proof -
  have start: "error (fetchWeatherData_start la lo s) = None"
    by (simp add: fetchWeatherData_start_def)
  have later: "error (foldl step (fetchWeatherData_start la lo s) evs) = None"
    if "list_all (\<lambda>ev. \<not> rejection ev) evs"
    using that start by (rule foldl_step_error_null)
  show ?thesis
    using start later
    by (simp add: settle_success settle_success_render fetchWeatherData_def)
qed

theorem fetch_success_stores_data_witness:
  "list_all (\<lambda>ev. \<not> rejection ev)
     [Location_answer (Geo_position 19.076 72.8777), Fetch_settled (Inr sample_storm)] \<and>
   error sample_failed = Some fetch_failed_message \<and>
   error (fetchWeatherData_settle (Inr sample_weather)
     (foldl step (fetchWeatherData_start 18.5204 73.8567 sample_failed)
        [Location_answer (Geo_position 19.076 72.8777), Fetch_settled (Inr sample_storm)]))
     = None \<and>
   weather (fetchWeatherData_settle (Inr sample_weather)
     (foldl step (fetchWeatherData_start 18.5204 73.8567 sample_failed)
        [Location_answer (Geo_position 19.076 72.8777), Fetch_settled (Inr sample_storm)]))
     = Some sample_weather"
  using fetch_success_stores_data
    [where s = sample_failed and la = "18.5204" and lo = "73.8567" and wd = sample_weather
      and evs = "[Location_answer (Geo_position 19.076 72.8777),
        Fetch_settled (Inr sample_storm)]"]
  by (simp add: sample_failed_def sample_weather_def sample_storm_def app_simps)

text \<open>
  In the session with the two overlapping fetches, the last event is the success of a
  fetch, and the controller ends with the new data stored and the error field still set,
  by the rejection of the other fetch.
\<close>

theorem fetch_success_keeps_error:
  "weather (run sample_overlap) = Some sample_storm \<and>
   error (run sample_overlap) = Some fetch_failed_message \<and>
   \<not> loading (run sample_overlap) \<and>
   requests (run sample_overlap) = [(40.7128, - 74.0060), (18.5204, 73.8567), (19.076, 72.8777)]"
  by (simp add: sample_overlap_def sample_weather_def sample_storm_def app_simps)

text \<open>
  C2.  A fetch that fails leaves the stored \<^verbatim>\<open>WeatherData\<close> as it was.  The failure goes
  to the error field, as the fixed message, and to the console.  When data was held, the
  dashboard is rendered with that data; when none was held, the full-screen message with
  the retry button is rendered; and in any state that renders the full-screen message, no
  data is held.
\<close>

theorem fetch_failure_keeps_stale_data:
  "weather (fetchWeatherData_settle (Inl err) s) = weather s \<and>
   weather (fetchWeatherData (Inl err) la lo s) = weather s \<and>
   error (fetchWeatherData (Inl err) la lo s) = Some fetch_failed_message \<and>
   console (fetchWeatherData (Inl err) la lo s) = console s @ [Weather_fetch_error err] \<and>
   (weather s = Some wd \<longrightarrow>
      render (fetchWeatherData (Inl err) la lo s) = Dashboard (currentLocation s) (Some wd)) \<and>
   (weather s = None \<longrightarrow>
      render (fetchWeatherData (Inl err) la lo s) = Error_screen fetch_failed_message) \<and>
   (render t = Error_screen m \<longrightarrow> weather t = None)"
  by (simp add: fetchWeatherData_def fetchWeatherData_start_def fetchWeatherData_settle_def
      render_def fetch_failed_message_def split: option.split)

theorem fetch_failure_keeps_stale_data_witness:
  "weather sample_ready = Some sample_weather \<and>
   render (fetchWeatherData (Inl NetworkError) 0 0 sample_ready)
     = Dashboard ''Pune, IN'' (Some sample_weather) \<and>
   weather sample_failed = None \<and>
   render (fetchWeatherData (Inl NetworkError) 0 0 sample_failed)
     = Error_screen fetch_failed_message \<and>
   render sample_failed = Error_screen fetch_failed_message"
  using fetch_failure_keeps_stale_data
    [where s = sample_ready and wd = sample_weather and err = NetworkError and la = 0
      and lo = 0 and t = sample_failed and m = fetch_failed_message]
    fetch_failure_keeps_stale_data
    [where s = sample_failed and wd = sample_weather and err = NetworkError and la = 0
      and lo = 0 and t = sample_failed and m = fetch_failed_message]
  by (simp add: sample_ready_def sample_failed_def sample_weather_def app_simps)

section \<open>The controller: loading and the error field\<close>

lemma fetchWeatherData_start_clears:
  "loading (fetchWeatherData_start la lo s) \<and> error (fetchWeatherData_start la lo s) = None"
  by (simp add: fetchWeatherData_start_def)

lemma step_keeps_invariant:
  "(loading s \<longrightarrow> error s = None) \<Longrightarrow> loading (step s ev) \<longrightarrow> error (step s ev) = None"
  by (cases ev)
    (simp_all add: requestLocation_def handleLocationSelect_def handleRefresh_def
      fetchWeatherData_start_def fetchWeatherData_settle_def
      split: geo_result.split option.split sum.split)

lemma foldl_step_keeps_invariant:
  "(loading s \<longrightarrow> error s = None) \<Longrightarrow>
   loading (foldl step s evs) \<longrightarrow> error (foldl step s evs) = None"
proof (induction evs arbitrary: s)
  case Nil
  then show ?case by simp
next
  case (Cons ev evs)
  have "loading (step s ev) \<longrightarrow> error (step s ev) = None"
    using Cons.prems by (rule step_keeps_invariant)
  then show ?case
    using Cons.IH [of "step s ev"] by simp
qed

lemma step_issuing_clears:
  "requests (step s ev) \<noteq> requests s \<Longrightarrow> loading (step s ev) \<and> error (step s ev) = None"
  by (cases ev)
    (auto simp add: requestLocation_def handleLocationSelect_def handleRefresh_def
      fetchWeatherData_start_def fetchWeatherData_settle_def
      split: geo_result.splits option.splits sum.splits)

text \<open>
  C9.  Issuing a fetch sets the loading flag and clears the error field at once, before
  the promise settles: this holds of \<^verbatim>\<open>fetchWeatherData\<close> itself and of every event that
  issues a request.  Hence in every state the component reaches from its initial state,
  by events in any order, the error field is \<^verbatim>\<open>null\<close> whenever the loading flag is set.
\<close>

theorem loading_implies_no_error:
  "loading (fetchWeatherData_start la lo s) \<and>
   error (fetchWeatherData_start la lo s) = None \<and>
   (requests (step s ev) \<noteq> requests s \<longrightarrow>
      loading (step s ev) \<and> error (step s ev) = None) \<and>
   (loading (run evs) \<longrightarrow> error (run evs) = None)"
proof -
  have "loading initial \<longrightarrow> error initial = None"
    by (simp add: initial_def)
  then have "loading (run evs) \<longrightarrow> error (run evs) = None"
    unfolding run_def by (rule foldl_step_keeps_invariant)
  then show ?thesis
    using fetchWeatherData_start_clears [of la lo s] step_issuing_clears [of s ev] by blast
qed

theorem loading_implies_no_error_witness:
  "error sample_failed = Some fetch_failed_message \<and>
   requests (step sample_failed (Location_answer (Geo_failed ''denied'')))
     \<noteq> requests sample_failed \<and>
   loading (step sample_failed (Location_answer (Geo_failed ''denied''))) \<and>
   error (step sample_failed (Location_answer (Geo_failed ''denied''))) = None \<and>
   loading (run [Location_answer Geo_unavailable, Fetch_settled (Inl NetworkError),
       Location_answer (Geo_failed ''denied'')]) \<and>
   error (run [Location_answer Geo_unavailable, Fetch_settled (Inl NetworkError),
       Location_answer (Geo_failed ''denied'')]) = None"
  using loading_implies_no_error
    [where la = 0 and lo = 0 and s = sample_failed
      and ev = "Location_answer (Geo_failed ''denied'')"
      and evs = "[Location_answer Geo_unavailable, Fetch_settled (Inl NetworkError),
        Location_answer (Geo_failed ''denied'')]"]
  by (simp add: sample_failed_def app_simps)

section \<open>The controller: refresh\<close>

text \<open>
  C4.  Refresh has an effect exactly when a \<^verbatim>\<open>WeatherData\<close> is held: then it issues one
  fetch, for the latitude and the longitude stored in the location of that data, unchanged,
  and otherwise it issues none.
\<close>

theorem refresh_uses_stored_coordinates:
  "(weather s = Some w \<longrightarrow>
      handleRefresh s =
        s\<lparr>loading := True, error := None,
          requests := requests s @ [(lat (location w), lon (location w))]\<rparr>) \<and>
   (requests (handleRefresh s) = requests s) = (weather s = None)"
  by (simp add: handleRefresh_def fetchWeatherData_start_def split: option.split)

theorem refresh_uses_stored_coordinates_witness:
  "weather sample_ready = Some sample_weather \<and>
   requests sample_ready = [(40.7128, - 74.0060)] \<and>
   requests (handleRefresh sample_ready) = [(40.7128, - 74.0060), (18.5204, 73.8567)] \<and>
   loading (handleRefresh sample_ready)"
  using refresh_uses_stored_coordinates [where s = sample_ready and w = sample_weather]
  by (simp add: sample_ready_def sample_weather_def app_simps)

text \<open>
  C10.  Refresh with no \<^verbatim>\<open>WeatherData\<close> held does nothing: the state is the same
  afterwards, the four state cells as well as the list of the requests issued.
\<close>

theorem refresh_without_weather_noop:
  "weather s = None \<Longrightarrow> handleRefresh s = s"
  by (simp add: handleRefresh_def)

theorem refresh_without_weather_noop_witness:
  "weather sample_failed = None \<and> handleRefresh sample_failed = sample_failed \<and>
   requests (handleRefresh sample_failed) = [(40.7128, - 74.0060)]"
  using refresh_without_weather_noop [of sample_failed]
  by (simp add: sample_failed_def app_simps)

section \<open>The controller: geolocation\<close>

text \<open>
  C1.  When the device reports a geolocation error, or has no geolocation, the controller
  issues a fetch for the fixed coordinates (40.7128, -74.0060), with the loading flag set
  and no error.  The geolocation error goes to the console only: whatever happens next,
  the state cells and the screen are those of a device without geolocation, and the error
  field holds nothing or the message of a rejected fetch.  The controller does not enter
  the error state on account of the geolocation failure: as long as no fetch is rejected,
  the error field stays \<^verbatim>\<open>null\<close>, and when a fetch then succeeds the controller is
  ready, with the data stored, no error, the loading flag cleared and the dashboard
  rendered.
\<close>

theorem geolocation_failure_recovered:
  assumes "g = Geo_unavailable \<or> g = Geo_failed e"
  shows
   "requests (requestLocation g s) = requests s @ [(40.7128, - 74.0060)] \<and>
    loading (requestLocation g s) \<and>
    error (requestLocation g s) = None \<and>
    console (requestLocation (Geo_failed e) s) = console s @ [Geolocation_error e] \<and>
    observable (foldl step (requestLocation g s) evs)
      = observable (foldl step (requestLocation Geo_unavailable s) evs) \<and>
    render (foldl step (requestLocation g s) evs)
      = render (foldl step (requestLocation Geo_unavailable s) evs) \<and>
    (error (foldl step (requestLocation g s) evs) = None \<or>
     error (foldl step (requestLocation g s) evs) = Some fetch_failed_message) \<and>
    (list_all (\<lambda>ev. \<not> rejection ev) evs \<longrightarrow>
       error (foldl step (requestLocation g s) evs) = None \<and>
       weather (fetchWeatherData_settle (Inr wd) (foldl step (requestLocation g s) evs))
         = Some wd \<and>
       error (fetchWeatherData_settle (Inr wd) (foldl step (requestLocation g s) evs))
         = None \<and>
       \<not> loading (fetchWeatherData_settle (Inr wd) (foldl step (requestLocation g s) evs)) \<and>
       render (fetchWeatherData_settle (Inr wd) (foldl step (requestLocation g s) evs))
         = Dashboard (name (location wd) @ '', '' @ country (location wd)) (Some wd))"
proof -
  note start = requestLocation_fallback [OF assms, of s]
  have obs: "observable (foldl step (requestLocation g s) evs)
      = observable (foldl step (requestLocation Geo_unavailable s) evs)"
    by (rule foldl_step_observable) (simp add: start)
  have msg: "error (foldl step (requestLocation g s) evs) = None \<or>
      error (foldl step (requestLocation g s) evs) = Some fetch_failed_message"
    by (rule foldl_step_error_message) (simp add: start)
  have log: "console (requestLocation (Geo_failed e) s) = console s @ [Geolocation_error e]"
    by (simp add: requestLocation_def fetchWeatherData_start_def)
  have ready: "error (foldl step (requestLocation g s) evs) = None"
    if "list_all (\<lambda>ev. \<not> rejection ev) evs"
    using that by (rule foldl_step_error_null) (simp add: start)
  show ?thesis
    using start obs render_observable [OF obs] msg log ready
    by (simp add: settle_success settle_success_render)
qed

theorem geolocation_failure_recovered_witness:
  "list_all (\<lambda>ev. \<not> rejection ev) [Location_select (location sample_storm)] \<and>
   requests (requestLocation (Geo_failed ''denied'') initial) = [(40.7128, - 74.0060)] \<and>
   console (requestLocation (Geo_failed ''denied'') initial) = [Geolocation_error ''denied''] \<and>
   weather (run [Location_answer (Geo_failed ''denied''),
      Location_select (location sample_storm), Fetch_settled (Inr sample_weather)])
     = Some sample_weather \<and>
   error (run [Location_answer (Geo_failed ''denied''),
      Location_select (location sample_storm), Fetch_settled (Inr sample_weather)]) = None \<and>
   \<not> loading (run [Location_answer (Geo_failed ''denied''),
      Location_select (location sample_storm), Fetch_settled (Inr sample_weather)]) \<and>
   render (run [Location_answer (Geo_failed ''denied''),
      Location_select (location sample_storm), Fetch_settled (Inr sample_weather)])
     = Dashboard ''Pune, IN'' (Some sample_weather)"
  using geolocation_failure_recovered
    [where g = "Geo_failed ''denied''" and e = "''denied''" and s = initial
      and evs = "[Location_select (location sample_storm)]" and wd = sample_weather]
  by (simp add: sample_weather_def sample_storm_def app_simps)

section \<open>The weather client\<close>

lemma dropWhile_all:
  "list_all P xs \<Longrightarrow> dropWhile P xs = []"
  by (induction xs) simp_all

lemma trim_whitespace:
  "list_all is_whitespace text \<Longrightarrow> trim text = []"
  by (simp add: trim_def dropWhile_all)

text \<open>
  C8.  On an input that is empty or has whitespace only, \<^verbatim>\<open>fetchByQuery\<close> returns the
  empty sequence and the network layer is not called: the log of its calls is unchanged.
\<close>

theorem fetchByQuery_blank:
  "list_all is_whitespace text \<Longrightarrow> fetchByQuery lookup text calls = (Inr [], calls)"
  by (simp add: fetchByQuery_def trim_whitespace)

theorem fetchByQuery_blank_witness:
  "list_all is_whitespace [] \<and> list_all is_whitespace [CHR '' '', CHR 0x09, CHR '' ''] \<and>
   fetchByQuery (\<lambda>q. Inl NetworkError) [] [''pune''] = (Inr [], [''pune'']) \<and>
   fetchByQuery (\<lambda>q. Inl NetworkError) [CHR '' '', CHR 0x09, CHR '' ''] [] = (Inr [], [])"
  using fetchByQuery_blank [of "[]" "\<lambda>q. Inl NetworkError" "[''pune'']"]
    fetchByQuery_blank [of "[CHR '' '', CHR 0x09, CHR '' '']" "\<lambda>q. Inl NetworkError" "[]"]
  by (simp add: is_whitespace_def)

section \<open>The insight engine\<close>

text \<open>
  C7.  When the temperature is above the heat threshold and neither the wind rule nor the
  discomfort rule matches, the result is the heat insight alone: it has exactly one
  insight of category heat, and nothing else.
\<close>

theorem generateAIInsights_one_heat:
  assumes "heat_threshold p < temperature (current w)"
    and "\<not> wind_threshold p < windSpeed (current w)"
    and "\<not> (humidity_threshold p < humidity (current w) \<and>
            discomfort_temperature p < temperature (current w))"
  shows "generateAIInsights p w = [make_insight p ''heat'' w] \<and>
    length (filter (\<lambda>i. category i = ''heat'') (generateAIInsights p w)) = 1"
  using assms by (simp add: generateAIInsights_def rule_table_def make_insight_def)

theorem generateAIInsights_one_heat_witness:
  "heat_threshold sample_parameters < temperature (current sample_weather) \<and>
   \<not> wind_threshold sample_parameters < windSpeed (current sample_weather) \<and>
   \<not> humidity_threshold sample_parameters < humidity (current sample_weather) \<and>
   generateAIInsights sample_parameters sample_weather =
     [\<lparr>category = ''heat'', message = ''heat'', severity = ''info''\<rparr>]"
  using generateAIInsights_one_heat [of sample_parameters sample_weather]
  by (simp add: make_insight_def sample_parameters_def sample_weather_def)

end
